theory Spec2Isabelle
  imports Complex_Main
begin

section \<open>Values exchanged between JavaScript and the relational store\<close>

text \<open>
  The three services (login, product, order) are Express handlers that run parameterised SQL
  against the schema of \<^verbatim>\<open>database/init.sql\<close>. The model is a shallow embedding:
  every handler is a function from the store (and the request) to the new store and the HTTP
  response.

  Conventions of the model.
  \<^item> A JSON field that may be absent (\<^verbatim>\<open>undefined\<close>) and a nullable SQL column are
    \<open>option\<close> values; \<open>None\<close> is \<^verbatim>\<open>undefined\<close>, respectively \<^verbatim>\<open>NULL\<close>.
    Request fields that are present are taken to be integers (ids, quantities) or strings.
  \<^item> A JavaScript number holding a currency amount is a \<open>jsnum\<close>: either \<open>NaN\<close> or an
    exact rational. The rounding of IEEE-754 doubles is not part of the model, nor is the
    range of the \<^verbatim>\<open>DECIMAL(10,2)\<close> and \<^verbatim>\<open>INTEGER\<close> columns.
  \<^item> Timestamps, the joined display columns of the responses and the connection pool are
    left out. Requests are handled one at a time.
\<close>

datatype jsnum = NaN | Num rat

text \<open>\<^verbatim>\<open>parseFloat(product.price)\<close>: the driver hands a \<^verbatim>\<open>DECIMAL\<close> over as a string.\<close>

definition parseFloat :: "rat \<Rightarrow> jsnum" where
  "parseFloat p = Num p"

text \<open>\<^verbatim>\<open>a * item.quantity\<close>; an absent quantity is \<^verbatim>\<open>undefined\<close>, which converts to NaN.\<close>

fun js_times :: "jsnum \<Rightarrow> int option \<Rightarrow> jsnum" where
  "js_times (Num a) (Some q) = Num (a * of_int q)"
| "js_times _ _ = NaN"

fun js_plus :: "jsnum \<Rightarrow> jsnum \<Rightarrow> jsnum" where
  "js_plus (Num a) (Num b) = Num (a + b)"
| "js_plus _ _ = NaN"

text \<open>
  \<^verbatim>\<open>product.stock_quantity < item.quantity\<close>. A comparison with \<^verbatim>\<open>undefined\<close> is
  false; a \<^verbatim>\<open>null\<close> stock converts to 0.
\<close>

fun js_less :: "int option \<Rightarrow> int option \<Rightarrow> bool" where
  "js_less _ None = False"
| "js_less None (Some q) = (0 < q)"
| "js_less (Some s) (Some q) = (s < q)"

text \<open>SQL integer arithmetic: an operation with \<^verbatim>\<open>NULL\<close> yields \<^verbatim>\<open>NULL\<close>.\<close>

fun sql_minus :: "int option \<Rightarrow> int option \<Rightarrow> int option" where
  "sql_minus (Some a) (Some b) = Some (a - b)"
| "sql_minus _ _ = None"

fun sql_plus :: "int option \<Rightarrow> int option \<Rightarrow> int option" where
  "sql_plus (Some a) (Some b) = Some (a + b)"
| "sql_plus _ _ = None"


section \<open>The relational store\<close>

record product =
  p_name :: string
  price :: rat
  stock_quantity :: "int option"
  is_active :: bool

record order_row =
  o_user_id :: int
  total_amount :: jsnum
  status :: string
  o_shipping_address :: string
  o_billing_address :: string

record item_row =
  oi_order_id :: int
  oi_product_id :: "int option"
  oi_quantity :: int
  oi_unit_price :: rat
  oi_total_price :: jsnum

text \<open>
  Tables with a primary key are maps from the key. \<open>orders_id_seq\<close> is the sequence behind
  \<^verbatim>\<open>orders.id SERIAL\<close>: the next id it hands out. A sequence is not transactional: a
  value taken inside a transaction stays taken after a rollback.
\<close>

record store =
  users :: "int list"
  products :: "int \<rightharpoonup> product"
  orders :: "int \<rightharpoonup> order_row"
  order_items :: "item_row list"
  orders_id_seq :: int

text \<open>
  \<^verbatim>\<open>BEGIN\<close> gives the transaction a working copy of the store; \<^verbatim>\<open>COMMIT\<close> makes the
  working copy the store; \<^verbatim>\<open>ROLLBACK\<close> drops it, keeping only the sequence's progress.
\<close>

definition begin_txn :: "store \<Rightarrow> store" where
  "begin_txn db = db"

definition commit :: "store \<Rightarrow> store \<Rightarrow> store" where
  "commit db w = w"

definition rollback :: "store \<Rightarrow> store \<Rightarrow> store" where
  "rollback db w = db\<lparr>orders_id_seq := orders_id_seq w\<rparr>"

section \<open>Requests, errors and responses\<close>

record line =
  product_id :: "int option"
  quantity :: "int option"

text \<open>An entry of \<^verbatim>\<open>processedItems\<close>: the line with the price snapshot and the line total.\<close>

record processed_item = line +
  unit_price :: rat
  total_price :: jsnum

text \<open>\<open>items = None\<close>: the field is absent or is not an array.\<close>

record order_request =
  user_id :: "int option"
  items :: "line list option"
  shipping_address :: string
  billing_address :: string

text \<open>
  What the transaction body can throw. The first two are the handler's own
  \<^verbatim>\<open>new Error(...)\<close>, with the values interpolated into the message; the others are the
  store's constraint violations (relation, column).
\<close>

datatype error =
    Product_not_found "int option"
  | Insufficient_stock string "int option" "int option"
  | Not_null_violation string string
  | Foreign_key_violation string string
  | Unique_violation string string

text \<open>
  A response is a status code and a JSON body. The bodies of the order service: an
  \<^verbatim>\<open>error\<close> field holding a literal text or the message of the error caught, a
  \<^verbatim>\<open>message\<close> field, the order row read back with its items, or an order row alone.
\<close>

datatype order_body =
    Error_text string
  | Error_message error
  | Message string
  | Order_json "(int \<times> order_row) option" "item_row list"
  | Order_row_json int order_row

record 'b response =
  status_code :: nat
  body :: 'b

definition reply :: "nat \<Rightarrow> 'b \<Rightarrow> 'b response" where
  "reply c b = \<lparr>status_code = c, body = b\<rparr>"

section \<open>Order service: creating an order\<close>

text \<open>
  \<^verbatim>\<open>SELECT id, name, price, stock_quantity FROM products WHERE id = $1 AND is_active = true\<close>:
  the first row, if any. A \<^verbatim>\<open>NULL\<close> parameter matches no row.
\<close>

definition select_active_product :: "store \<Rightarrow> int option \<Rightarrow> product option" where
  "select_active_product w pid =
     (case pid of
        None \<Rightarrow> None
      | Some i \<Rightarrow>
          (case products w i of
             None \<Rightarrow> None
           | Some p \<Rightarrow> if is_active p then Some p else None))"

text \<open>\<^verbatim>\<open>UPDATE products SET stock_quantity = stock_quantity - $1 WHERE id = $2\<close>.\<close>

definition decrement_stock :: "store \<Rightarrow> int option \<Rightarrow> int option \<Rightarrow> store" where
  "decrement_stock w q pid =
     (case pid of
        None \<Rightarrow> w
      | Some i \<Rightarrow>
          (case products w i of
             None \<Rightarrow> w
           | Some p \<Rightarrow>
               w\<lparr>products := (products w)(i \<mapsto> p\<lparr>stock_quantity := sql_minus (stock_quantity p) q\<rparr>)\<rparr>))"

text \<open>
  The loop over the request's lines, on the transaction's working copy \<open>w\<close>, with the running
  \<^verbatim>\<open>totalAmount\<close> and \<^verbatim>\<open>processedItems\<close>. A \<^verbatim>\<open>throw\<close> leaves the loop with the
  working copy as it is at that point.
\<close>

fun process_items ::
  "line list \<Rightarrow> store \<Rightarrow> jsnum \<Rightarrow> processed_item list
     \<Rightarrow> store \<times> (error + jsnum \<times> processed_item list)" where
  "process_items [] w totalAmount processedItems = (w, Inr (totalAmount, processedItems))"
| "process_items (item # rest) w totalAmount processedItems =
     (case select_active_product w (product_id item) of
        None \<Rightarrow> (w, Inl (Product_not_found (product_id item)))
      | Some p \<Rightarrow>
          if js_less (stock_quantity p) (quantity item)
          then (w, Inl (Insufficient_stock (p_name p) (stock_quantity p) (quantity item)))
          else
            let itemTotal = js_times (parseFloat (price p)) (quantity item)
            in process_items rest
                 (decrement_stock w (quantity item) (product_id item))
                 (js_plus totalAmount itemTotal)
                 (processedItems @
                    [\<lparr>product_id = product_id item, quantity = quantity item,
                      unit_price = price p, total_price = itemTotal\<rparr>]))"

text \<open>
  \<^verbatim>\<open>INSERT INTO orders (user_id, total_amount, shipping_address, billing_address) ... RETURNING *\<close>.
  The id comes from the sequence, the status is the column default. The id is the primary
  key (checked when the row is inserted); \<open>user_id\<close> references \<open>users\<close> (checked at the
  end of the statement). A failed insert has still advanced the sequence.
\<close>

definition insert_order ::
  "store \<Rightarrow> int \<Rightarrow> jsnum \<Rightarrow> string \<Rightarrow> string \<Rightarrow> store \<times> (error + int)" where
  "insert_order w uid totalAmount ship bill =
     (let oid = orders_id_seq w;
          w1 = w\<lparr>orders_id_seq := oid + 1\<rparr>
      in if orders w oid \<noteq> None then (w1, Inl (Unique_violation ''orders'' ''id''))
         else if uid \<notin> set (users w) then (w1, Inl (Foreign_key_violation ''orders'' ''user_id''))
         else (w1\<lparr>orders := (orders w)(oid \<mapsto>
                       \<lparr>o_user_id = uid, total_amount = totalAmount, status = ''pending'',
                        o_shipping_address = ship, o_billing_address = bill\<rparr>)\<rparr>,
               Inr oid))"

text \<open>
  The second loop: one \<^verbatim>\<open>INSERT INTO order_items\<close> per processed item.
  \<open>quantity\<close> is \<^verbatim>\<open>NOT NULL\<close>; \<open>product_id\<close> references \<open>products\<close>.
\<close>

definition references_product :: "store \<Rightarrow> int option \<Rightarrow> bool" where
  "references_product w pid = (case pid of None \<Rightarrow> True | Some i \<Rightarrow> products w i \<noteq> None)"

fun insert_order_items :: "int \<Rightarrow> processed_item list \<Rightarrow> store \<Rightarrow> store \<times> (error + unit)" where
  "insert_order_items oid [] w = (w, Inr ())"
| "insert_order_items oid (item # rest) w =
     (case quantity item of
        None \<Rightarrow> (w, Inl (Not_null_violation ''order_items'' ''quantity''))
      | Some q \<Rightarrow>
          if \<not> references_product w (product_id item)
          then (w, Inl (Foreign_key_violation ''order_items'' ''product_id''))
          else insert_order_items oid rest
                 (w\<lparr>order_items := order_items w @
                     [\<lparr>oi_order_id = oid, oi_product_id = product_id item, oi_quantity = q,
                       oi_unit_price = unit_price item, oi_total_price = total_price item\<rparr>]\<rparr>))"

text \<open>
  The body of the \<^verbatim>\<open>try\<close> block between the validation and \<^verbatim>\<open>COMMIT\<close>: it returns
  the working copy and either the error thrown or the id of the new order.
\<close>

definition order_transaction ::
  "store \<Rightarrow> int \<Rightarrow> line list \<Rightarrow> string \<Rightarrow> string \<Rightarrow> store \<times> (error + int)" where
  "order_transaction w uid ls ship bill =
     (case process_items ls w (Num 0) [] of
        (w1, Inl err) \<Rightarrow> (w1, Inl err)
      | (w1, Inr (totalAmount, processedItems)) \<Rightarrow>
          (case insert_order w1 uid totalAmount ship bill of
             (w2, Inl err) \<Rightarrow> (w2, Inl err)
           | (w2, Inr oid) \<Rightarrow>
               (case insert_order_items oid processedItems w2 of
                  (w3, Inl err) \<Rightarrow> (w3, Inl err)
                | (w3, Inr _) \<Rightarrow> (w3, Inr oid))))"

text \<open>
  The validation \<^verbatim>\<open>!user_id || !items || !Array.isArray(items) || items.length === 0\<close>.
  The number 0 is falsy.
\<close>

definition missing_required_fields :: "order_request \<Rightarrow> bool" where
  "missing_required_fields req =
     (user_id req = None \<or> user_id req = Some 0 \<or> items req = None \<or> items req = Some [])"

text \<open>\<^verbatim>\<open>SELECT ... FROM order_items WHERE order_id = $1\<close>.\<close>

definition items_of_order :: "store \<Rightarrow> int \<Rightarrow> item_row list" where
  "items_of_order db oid = filter (\<lambda>i. oi_order_id i = oid) (order_items db)"

text \<open>
  The response after \<^verbatim>\<open>COMMIT\<close>: the order row read back from the store, with its items.
\<close>

definition complete_order :: "store \<Rightarrow> int \<Rightarrow> order_body response" where
  "complete_order db oid =
     reply 201 (Order_json (map_option (Pair oid) (orders db oid)) (items_of_order db oid))"

text \<open>
  \<^verbatim>\<open>POST /api/orders\<close>. The validation returns 400 from inside the \<^verbatim>\<open>try\<close> block,
  before any statement other than \<^verbatim>\<open>BEGIN\<close>. Every \<^verbatim>\<open>throw\<close> lands in the
  \<^verbatim>\<open>catch\<close> block: \<^verbatim>\<open>ROLLBACK\<close>, then status 500 with the error's message.
\<close>

definition create_order :: "store \<Rightarrow> order_request \<Rightarrow> store \<times> order_body response" where
  "create_order db req =
     (if missing_required_fields req
      then (db, reply 400 (Error_text ''Missing required fields: user_id and items array''))
      else
        (case (user_id req, items req) of
           (Some uid, Some ls) \<Rightarrow>
             (case order_transaction (begin_txn db) uid ls (shipping_address req) (billing_address req) of
                (w, Inl err) \<Rightarrow> (rollback db w, reply 500 (Error_message err))
              | (w, Inr oid) \<Rightarrow>
                  (let db' = commit db w in (db', complete_order db' oid)))
         | _ \<Rightarrow> (db, reply 400 (Error_text ''Missing required fields: user_id and items array''))))"

section \<open>Order service: status update and cancellation\<close>


text \<open>\<^verbatim>\<open>UPDATE orders SET status = $1 WHERE id = $2\<close>.\<close>

definition set_order_status :: "store \<Rightarrow> string \<Rightarrow> int \<Rightarrow> store" where
  "set_order_status w st oid =
     (case orders w oid of
        None \<Rightarrow> w
      | Some row \<Rightarrow> w\<lparr>orders := (orders w)(oid \<mapsto> row\<lparr>status := st\<rparr>)\<rparr>)"


text \<open>\<^verbatim>\<open>UPDATE products SET stock_quantity = stock_quantity + $1 WHERE id = $2\<close>.\<close>

definition increment_stock :: "store \<Rightarrow> int \<Rightarrow> int option \<Rightarrow> store" where
  "increment_stock w q pid =
     (case pid of
        None \<Rightarrow> w
      | Some i \<Rightarrow>
          (case products w i of
             None \<Rightarrow> w
           | Some p \<Rightarrow>
               w\<lparr>products := (products w)(i \<mapsto> p\<lparr>stock_quantity := sql_plus (stock_quantity p) (Some q)\<rparr>)\<rparr>))"

text \<open>The loop over the order's item rows.\<close>

fun restore_stock :: "item_row list \<Rightarrow> store \<Rightarrow> store" where
  "restore_stock [] w = w"
| "restore_stock (item # rest) w =
     restore_stock rest (increment_stock w (oi_quantity item) (oi_product_id item))"



section \<open>Product service\<close>




text \<open>
  The cache, as the list handler sees it: the entry under \<^verbatim>\<open>products:all\<close> (absent when
  never set, deleted or expired), and whether \<^verbatim>\<open>get\<close> and \<^verbatim>\<open>setEx\<close> reject. The
  rows are kept as they are; serialisation to JSON and back is the identity on them.
\<close>

record 'r redis =
  entry :: "'r list option"
  get_rejects :: bool
  setEx_rejects :: bool

datatype redis_error = Redis_error

definition redis_get :: "'r redis \<Rightarrow> redis_error + 'r list option" where
  "redis_get c = (if get_rejects c then Inl Redis_error else Inr (entry c))"

definition redis_setEx :: "'r redis \<Rightarrow> 'r list \<Rightarrow> 'r redis \<times> (redis_error + unit)" where
  "redis_setEx c v =
     (if setEx_rejects c then (c, Inl Redis_error) else (c\<lparr>entry := Some v\<rparr>, Inr ()))"

datatype 'r product_body = Product_error string | Product_list "'r list"

text \<open>
  \<^verbatim>\<open>GET /api/products\<close>. \<open>live\<close> is the result of
  \<^verbatim>\<open>SELECT * FROM products WHERE is_active = true ORDER BY created_at DESC\<close>. The cache
  calls are inside the handler's single \<^verbatim>\<open>try\<close> block.
\<close>

definition get_all_products :: "'r redis \<Rightarrow> 'r list \<Rightarrow> 'r redis \<times> 'r product_body response" where
  "get_all_products c live =
     (case redis_get c of
        Inl _ \<Rightarrow> (c, reply 500 (Product_error ''Failed to fetch products''))
      | Inr (Some cached) \<Rightarrow> (c, reply 200 (Product_list cached))
      | Inr None \<Rightarrow>
          (case redis_setEx c live of
             (c', Inl _) \<Rightarrow> (c', reply 500 (Product_error ''Failed to fetch products''))
           | (c', Inr _) \<Rightarrow> (c', reply 200 (Product_list live))))"

section \<open>Login service: the authentication check\<close>

record session =
  session_token :: string
  s_user_id :: int
  expires_at :: int

text \<open>
  \<^verbatim>\<open>SELECT user_id FROM user_sessions WHERE session_token = $1 AND expires_at > NOW()\<close>.
\<close>

definition live_sessions :: "session list \<Rightarrow> int \<Rightarrow> string \<Rightarrow> session list" where
  "live_sessions sessions now t =
     filter (\<lambda>s. session_token s = t \<and> expires_at s > now) sessions"

datatype 'c auth_body =
    Auth_error string
  | Invalid_token string
  | Valid_token 'c

datatype 'c auth_outcome = Next 'c | Rejected "'c auth_body response"

text \<open>
  The middleware \<^verbatim>\<open>authenticateToken\<close>. \<open>token\<close> is the second word of the
  \<^verbatim>\<open>authorization\<close> header, if any. \<^verbatim>\<open>jwt.verify\<close> is a parameter: it returns the
  decoded claims or throws (\<open>None\<close>) when the signature is invalid or the token has expired.
\<close>

definition authenticateToken ::
  "(string \<Rightarrow> 'c option) \<Rightarrow> session list \<Rightarrow> int \<Rightarrow> string option \<Rightarrow> 'c auth_outcome" where
  "authenticateToken jwt_verify sessions now token =
     (case token of
        None \<Rightarrow> Rejected (reply 401 (Auth_error ''Access token required''))
      | Some t \<Rightarrow>
          if t = [] then Rejected (reply 401 (Auth_error ''Access token required''))
          else
            (case jwt_verify t of
               None \<Rightarrow> Rejected (reply 403 (Auth_error ''Invalid token''))
             | Some decoded \<Rightarrow>
                 if live_sessions sessions now t = []
                 then Rejected (reply 401 (Auth_error ''Invalid or expired session''))
                 else Next decoded))"

text \<open>
  \<^verbatim>\<open>POST /api/auth/verify\<close>. The body of the \<^verbatim>\<open>catch\<close> block carries
  \<^verbatim>\<open>valid: false\<close> beside the error text (\<open>Invalid_token\<close>); the body of the session
  check carries the error text alone.
\<close>

definition verify_token ::
  "(string \<Rightarrow> 'c option) \<Rightarrow> session list \<Rightarrow> int \<Rightarrow> string option \<Rightarrow> 'c auth_body response" where
  "verify_token jwt_verify sessions now token =
     (case token of
        None \<Rightarrow> reply 400 (Auth_error ''Token required'')
      | Some t \<Rightarrow>
          if t = [] then reply 400 (Auth_error ''Token required'')
          else
            (case jwt_verify t of
               None \<Rightarrow> reply 401 (Invalid_token ''Invalid token'')
             | Some decoded \<Rightarrow>
                 if live_sessions sessions now t = []
                 then reply 401 (Auth_error ''Invalid or expired session'')
                 else reply 200 (Valid_token decoded)))"

section \<open>Auxiliary predicates\<close>



section \<open>Example data\<close>

definition widget :: product where
  "widget = \<lparr>p_name = ''Widget'', price = 10, stock_quantity = Some 5, is_active = True\<rparr>"

definition gadget :: product where
  "gadget = \<lparr>p_name = ''Gadget'', price = 5, stock_quantity = Some 3, is_active = True\<rparr>"

definition retired :: product where
  "retired = \<lparr>p_name = ''Retired'', price = 7, stock_quantity = Some 4, is_active = False\<rparr>"

definition order1 :: order_row where
  "order1 = \<lparr>o_user_id = 1, total_amount = Num 20, status = ''delivered'',
             o_shipping_address = ''1 Main St'', o_billing_address = ''1 Main St''\<rparr>"

definition order2 :: order_row where
  "order2 = \<lparr>o_user_id = 2, total_amount = Num 5, status = ''cancelled'',
             o_shipping_address = ''2 Side St'', o_billing_address = ''2 Side St''\<rparr>"

definition order3 :: order_row where
  "order3 = \<lparr>o_user_id = 1, total_amount = Num 20, status = ''pending'',
             o_shipping_address = ''1 Main St'', o_billing_address = ''1 Main St''\<rparr>"

definition shop_items :: "item_row list" where
  "shop_items =
     [\<lparr>oi_order_id = 1, oi_product_id = Some 1, oi_quantity = 2, oi_unit_price = 10,
       oi_total_price = Num 20\<rparr>,
      \<lparr>oi_order_id = 2, oi_product_id = Some 2, oi_quantity = 1, oi_unit_price = 5,
       oi_total_price = Num 5\<rparr>,
      \<lparr>oi_order_id = 3, oi_product_id = Some 1, oi_quantity = 1, oi_unit_price = 10,
       oi_total_price = Num 10\<rparr>,
      \<lparr>oi_order_id = 3, oi_product_id = Some 2, oi_quantity = 2, oi_unit_price = 5,
       oi_total_price = Num 10\<rparr>]"

definition shop :: store where
  "shop = \<lparr>users = [1, 2],
           products = [1 \<mapsto> widget, 2 \<mapsto> gadget, 3 \<mapsto> retired],
           orders = [1 \<mapsto> order1, 2 \<mapsto> order2, 3 \<mapsto> order3],
           order_items = shop_items,
           orders_id_seq = 4\<rparr>"

definition request_for :: "line list \<Rightarrow> order_request" where
  "request_for ls = \<lparr>user_id = Some 1, items = Some ls,
                     shipping_address = ''1 Main St'', billing_address = ''1 Main St''\<rparr>"

definition buy :: "int \<Rightarrow> int \<Rightarrow> line" where
  "buy pid q = \<lparr>product_id = Some pid, quantity = Some q\<rparr>"

text \<open>Lines that lack a field.\<close>

definition no_product_id :: line where
  "no_product_id = \<lparr>product_id = None, quantity = Some 1\<rparr>"

definition no_quantity :: line where
  "no_quantity = \<lparr>product_id = Some 2, quantity = None\<rparr>"

text \<open>A toy \<^verbatim>\<open>jwt.verify\<close>: one token verifies, every other one is rejected.\<close>

definition toy_jwt :: "string \<Rightarrow> string option" where
  "toy_jwt t = (if t = ''signed'' then Some ''alice'' else None)"

text \<open>A session row that expired before the time 100, and three states of the cache.\<close>

definition expired_session :: session where
  "expired_session = \<lparr>session_token = ''signed'', s_user_id = 1, expires_at = 50\<rparr>"

definition cache_down :: "product redis" where
  "cache_down = \<lparr>entry = None, get_rejects = True, setEx_rejects = True\<rparr>"

definition cache_read_only :: "product redis" where
  "cache_read_only = \<lparr>entry = None, get_rejects = False, setEx_rejects = True\<rparr>"

definition cache_empty :: "product redis" where
  "cache_empty = \<lparr>entry = None, get_rejects = False, setEx_rejects = False\<rparr>"

section \<open>Order creation: properties\<close>

lemma decrement_stock_other [simp]:
  "orders (decrement_stock w q pid) = orders w"
  "order_items (decrement_stock w q pid) = order_items w"
  "users (decrement_stock w q pid) = users w"
  "orders_id_seq (decrement_stock w q pid) = orders_id_seq w"
  by (auto simp: decrement_stock_def split: option.splits)

lemma decrement_stock_products:
  "products (decrement_stock w q pid) i =
     (if pid = Some i
      then map_option (\<lambda>p. p\<lparr>stock_quantity := sql_minus (stock_quantity p) q\<rparr>) (products w i)
      else products w i)"
  by (auto simp: decrement_stock_def split: option.splits)


lemma process_items_price:
  "process_items ls w t acc = (w', r) \<Longrightarrow>
     map_option price (products w' i) = map_option price (products w i)"
proof (induction ls arbitrary: w t acc)
  case Nil then show ?case by simp
next
  case (Cons item rest)
  then show ?case
    by (auto split: option.splits if_splits simp: Let_def decrement_stock_products option.map_comp comp_def)
qed





















lemmas shop_defs = shop_def widget_def gadget_def retired_def order1_def order2_def order3_def
  shop_items_def request_for_def buy_def
lemmas run_defs = create_order_def order_transaction_def insert_order_def
  select_active_product_def decrement_stock_def missing_required_fields_def begin_txn_def
  commit_def rollback_def complete_order_def items_of_order_def reply_def parseFloat_def
  references_product_def Let_def





text \<open>
  Asking twice for 3 of a stock of 5: the second line is checked against the 2 that the
  first line left.
\<close>

lemma second_line_sees_first_decrement:
  "snd (create_order shop (request_for [buy 1 3, buy 1 3]))
     = reply 500 (Error_message (Insufficient_stock ''Widget'' (Some 2) (Some 3)))"
  by (simp add: shop_defs run_defs)




section \<open>Cancellation and status update: properties\<close>

lemma increment_stock_other [simp]:
  "orders (increment_stock w q pid) = orders w"
  "order_items (increment_stock w q pid) = order_items w"
  "users (increment_stock w q pid) = users w"
  "orders_id_seq (increment_stock w q pid) = orders_id_seq w"
  by (auto simp: increment_stock_def split: option.splits)


lemma restore_stock_other [simp]:
  "orders (restore_stock its w) = orders w"
  "order_items (restore_stock its w) = order_items w"
  "users (restore_stock its w) = users w"
  "orders_id_seq (restore_stock its w) = orders_id_seq w"
  by (induction its arbitrary: w) auto




lemma set_order_status_other [simp]:
  "products (set_order_status w st oid) = products w"
  "order_items (set_order_status w st oid) = order_items w"
  "users (set_order_status w st oid) = users w"
  "orders_id_seq (set_order_status w st oid) = orders_id_seq w"
  by (auto simp: set_order_status_def split: option.splits)













section \<open>Order creation: validation\<close>

lemma process_items_lines:
  "process_items ls w t acc = (w', Inr (t', acc')) \<Longrightarrow>
     \<exists>new. acc' = acc @ new \<and> map quantity new = map quantity ls
       \<and> (\<forall>l\<in>set ls. product_id l \<noteq> None)"
proof (induction ls arbitrary: w t acc)
  case Nil then show ?case by simp
next
  case (Cons item rest)
  from Cons.prems obtain p where p: "select_active_product w (product_id item) = Some p"
    by (cases "select_active_product w (product_id item)") auto
  then have pid: "product_id item \<noteq> None"
    by (auto simp: select_active_product_def split: option.splits)
  from Cons.prems p have nl: "\<not> js_less (stock_quantity p) (quantity item)"
    by (auto split: if_splits)
  let ?tot = "js_times (parseFloat (price p)) (quantity item)"
  let ?pi = "\<lparr>product_id = product_id item, quantity = quantity item,
               unit_price = price p, total_price = ?tot\<rparr>"
  let ?w1 = "decrement_stock w (quantity item) (product_id item)"
  from Cons.prems p nl have run:
    "process_items rest ?w1 (js_plus t ?tot) (acc @ [?pi]) = (w', Inr (t', acc'))"
    by (simp add: Let_def)
  from Cons.IH[OF run] obtain new where new:
    "acc' = (acc @ [?pi]) @ new" "map quantity new = map quantity rest"
    "\<forall>l\<in>set rest. product_id l \<noteq> None"
    by blast
  from new pid have "acc' = acc @ (?pi # new) \<and> map quantity (?pi # new) = map quantity (item # rest)
      \<and> (\<forall>l\<in>set (item # rest). product_id l \<noteq> None)"
    by simp
  then show ?case by blast
qed

lemma insert_order_items_quantities:
  "insert_order_items oid its w = (w', Inr u) \<Longrightarrow> None \<notin> set (map quantity its)"
  by (induction its arbitrary: w) (auto split: option.splits if_splits)

lemma order_transaction_malformed:
  assumes "\<exists>l\<in>set ls. product_id l = None \<or> quantity l = None"
    and "order_transaction w uid ls ship bill = (w', r)"
  shows "\<exists>err. r = Inl err"
proof (rule ccontr)
  assume "\<not> (\<exists>err. r = Inl err)"
  then obtain oid where r: "r = Inr oid" by (cases r) auto
  obtain w1 r1 where l: "process_items ls w (Num 0) [] = (w1, r1)"
    by (cases "process_items ls w (Num 0) []") auto
  from assms(2) r l obtain t acc where r1: "r1 = Inr (t, acc)"
    by (cases r1) (auto simp: order_transaction_def)
  obtain w2 r2 where o: "insert_order w1 uid t ship bill = (w2, r2)"
    by (cases "insert_order w1 uid t ship bill") auto
  from assms(2) r l r1 o obtain oid2 where r2: "r2 = Inr oid2"
    by (cases r2) (auto simp: order_transaction_def)
  obtain w3 r3 where i: "insert_order_items oid2 acc w2 = (w3, r3)"
    by (cases "insert_order_items oid2 acc w2") auto
  from assms(2) r l r1 o r2 i obtain u where r3: "r3 = Inr u"
    by (cases r3) (auto simp: order_transaction_def)
  from process_items_lines[OF l[unfolded r1]]
  have q: "map quantity acc = map quantity ls" and pid: "\<forall>l\<in>set ls. product_id l \<noteq> None"
    by auto
  from insert_order_items_quantities[OF i[unfolded r3]] q
  have "None \<notin> set (map quantity ls)" by simp
  then have "\<forall>l\<in>set ls. quantity l \<noteq> None" by (metis image_eqI set_map)
  with pid assms(1) show False by blast
qed

lemma create_order_thrown:
  assumes "\<not> missing_required_fields req" and "user_id req = Some uid" and "items req = Some ls"
    and "order_transaction (begin_txn db) uid ls (shipping_address req) (billing_address req)
           = (w, Inl err)"
  shows "create_order db req = (rollback db w, reply 500 (Error_message err))"
  using assms by (simp add: create_order_def)

text \<open>
  Claim C7, amended. The validation of \<^verbatim>\<open>POST /api/orders\<close> looks at \<open>user_id\<close> and at
  the \<open>items\<close> array only: a request whose \<open>user_id\<close> is absent (or 0), or whose items
  are absent, not an array or empty, is answered 400 with the store untouched. The lines
  themselves are not validated. A request that passes the validation and holds a line without
  \<open>product_id\<close> or without \<open>quantity\<close> fails inside the transaction: it is answered 500
  with the message of the error thrown, after the rollback, and the tables \<open>products\<close>,
  \<open>orders\<close> and \<open>order_items\<close> are as before.
\<close>

theorem create_order_validation:
  "(missing_required_fields req \<longrightarrow>
      create_order db req
        = (db, reply 400 (Error_text ''Missing required fields: user_id and items array'')))
   \<and> (\<not> missing_required_fields req \<longrightarrow> items req = Some ls \<longrightarrow>
        (\<exists>l\<in>set ls. product_id l = None \<or> quantity l = None) \<longrightarrow>
          (\<exists>err. snd (create_order db req) = reply 500 (Error_message err))
        \<and> products (fst (create_order db req)) = products db
        \<and> orders (fst (create_order db req)) = orders db
        \<and> order_items (fst (create_order db req)) = order_items db)"
proof (intro conjI impI)
  assume "missing_required_fields req"
  then show "create_order db req
        = (db, reply 400 (Error_text ''Missing required fields: user_id and items array''))"
    by (simp add: create_order_def)
next
  assume nm: "\<not> missing_required_fields req" and ls: "items req = Some ls"
    and bad: "\<exists>l\<in>set ls. product_id l = None \<or> quantity l = None"
  from nm obtain uid where uid: "user_id req = Some uid"
    by (auto simp: missing_required_fields_def)
  obtain w r where t:
    "order_transaction (begin_txn db) uid ls (shipping_address req) (billing_address req) = (w, r)"
    by (cases "order_transaction (begin_txn db) uid ls (shipping_address req) (billing_address req)") auto
  from order_transaction_malformed[OF bad t] obtain err where "r = Inl err" by blast
  with t have c: "create_order db req = (rollback db w, reply 500 (Error_message err))"
    using create_order_thrown[OF nm uid ls] by simp
  then show "\<exists>err. snd (create_order db req) = reply 500 (Error_message err)" by auto
  from c show "products (fst (create_order db req)) = products db"
    "orders (fst (create_order db req)) = orders db"
    "order_items (fst (create_order db req)) = order_items db"
    by (simp_all add: rollback_def)
qed

text \<open>
  Claim C7 says that a line without \<open>product_id\<close> or without \<open>quantity\<close> is rejected as
  a validation error before any state change. On the example store both requests pass the
  validation. The line without \<open>product_id\<close> fails at the product lookup, 500 with the
  not-found message. The line without \<open>quantity\<close> passes the stock check, and the
  request fails only at the insert of its item row, 500 with the store's not-null violation,
  after the order row was inserted in the transaction: the order sequence has advanced.
\<close>

theorem line_validation_counterexample:
  "\<not> missing_required_fields (request_for [no_product_id])
   \<and> snd (create_order shop (request_for [no_product_id]))
       = reply 500 (Error_message (Product_not_found None))
   \<and> \<not> missing_required_fields (request_for [buy 1 2, no_quantity])
   \<and> snd (create_order shop (request_for [buy 1 2, no_quantity]))
       = reply 500 (Error_message (Not_null_violation ''order_items'' ''quantity''))
   \<and> orders_id_seq shop = 4
   \<and> orders_id_seq (fst (create_order shop (request_for [buy 1 2, no_quantity]))) = 5"
  by (simp add: shop_defs run_defs no_product_id_def no_quantity_def)

text \<open>
  The theorem at an empty line sequence and at a request whose second line lacks its quantity.
\<close>

theorem create_order_validation_witness:
  "missing_required_fields (request_for [])
   \<and> create_order shop (request_for [])
        = (shop, reply 400 (Error_text ''Missing required fields: user_id and items array''))
   \<and> \<not> missing_required_fields (request_for [buy 1 2, no_quantity])
   \<and> (\<exists>err. snd (create_order shop (request_for [buy 1 2, no_quantity]))
               = reply 500 (Error_message err))
   \<and> products (fst (create_order shop (request_for [buy 1 2, no_quantity]))) = products shop
   \<and> orders (fst (create_order shop (request_for [buy 1 2, no_quantity]))) = orders shop
   \<and> order_items (fst (create_order shop (request_for [buy 1 2, no_quantity]))) = order_items shop"
proof -
  let ?e = "request_for []" and ?q = "request_for [buy 1 2, no_quantity]"
  have m: "missing_required_fields ?e" and nm: "\<not> missing_required_fields ?q"
    by (simp_all add: missing_required_fields_def request_for_def)
  have i: "items ?q = Some [buy 1 2, no_quantity]" by (simp add: request_for_def)
  have b: "\<exists>l\<in>set [buy 1 2, no_quantity]. product_id l = None \<or> quantity l = None"
    by (simp add: no_quantity_def)
  note a = create_order_validation[of ?e shop, THEN conjunct1, rule_format, OF m]
  note c = create_order_validation[of ?q shop "[buy 1 2, no_quantity]", THEN conjunct2,
             rule_format, OF nm i b]
  from m a nm c show ?thesis by blast
qed

section \<open>Authentication check and product list: properties\<close>

lemma no_live_session:
  "(\<forall>s\<in>set sessions. session_token s = t \<longrightarrow> expires_at s \<le> now) \<Longrightarrow>
     live_sessions sessions now t = []"
  by (auto simp: live_sessions_def filter_empty_conv)

text \<open>
  Claim C8 says that an invalid signature, a missing session row and an expired session row
  give the same status code and the same body. With no session row at all, a token whose
  signature is rejected and a token whose signature verifies get different answers: the
  middleware answers 403 \<^verbatim>\<open>Invalid token\<close> against 401 \<^verbatim>\<open>Invalid or expired session\<close>;
  the verify endpoint answers 401 both times, with different bodies.
\<close>

theorem auth_failures_counterexample:
  "toy_jwt ''forged'' = None \<and> toy_jwt ''signed'' = Some ''alice''
   \<and> authenticateToken toy_jwt [] 100 (Some ''forged'')
        = Rejected (reply 403 (Auth_error ''Invalid token''))
   \<and> authenticateToken toy_jwt [] 100 (Some ''signed'')
        = Rejected (reply 401 (Auth_error ''Invalid or expired session''))
   \<and> authenticateToken toy_jwt [] 100 (Some ''forged'')
        \<noteq> authenticateToken toy_jwt [] 100 (Some ''signed'')
   \<and> verify_token toy_jwt [] 100 (Some ''forged'') = reply 401 (Invalid_token ''Invalid token'')
   \<and> verify_token toy_jwt [] 100 (Some ''signed'')
        = reply 401 (Auth_error ''Invalid or expired session'')
   \<and> verify_token toy_jwt [] 100 (Some ''forged'') \<noteq> verify_token toy_jwt [] 100 (Some ''signed'')"
  by (simp add: toy_jwt_def authenticateToken_def verify_token_def live_sessions_def reply_def)

text \<open>
  Claim C8, amended. For a non-empty token: when \<^verbatim>\<open>jwt.verify\<close> rejects it, the middleware
  answers 403 \<^verbatim>\<open>Invalid token\<close> and the verify endpoint 401 with
  \<^verbatim>\<open>valid: false\<close> and \<^verbatim>\<open>Invalid token\<close>. When the signature verifies and every session
  row of the token, if there is one, has expired, both answer 401
  \<^verbatim>\<open>Invalid or expired session\<close>: a missing row and an expired row are not told apart.
\<close>

theorem auth_failures:
  assumes "t \<noteq> []"
  shows "(jwt_verify t = None \<longrightarrow>
            authenticateToken jwt_verify sessions now (Some t)
              = Rejected (reply 403 (Auth_error ''Invalid token''))
          \<and> verify_token jwt_verify sessions now (Some t)
              = reply 401 (Invalid_token ''Invalid token''))
       \<and> (jwt_verify t = Some c \<longrightarrow>
            (\<forall>s\<in>set sessions. session_token s = t \<longrightarrow> expires_at s \<le> now) \<longrightarrow>
              authenticateToken jwt_verify sessions now (Some t)
                = Rejected (reply 401 (Auth_error ''Invalid or expired session''))
            \<and> verify_token jwt_verify sessions now (Some t)
                = reply 401 (Auth_error ''Invalid or expired session''))"
  using assms
  by (simp add: authenticateToken_def verify_token_def no_live_session)

text \<open>
  The theorem at a rejected token, and at a verified token with no session row and with an
  expired one.
\<close>

theorem auth_failures_witness:
  "toy_jwt ''forged'' = None
   \<and> authenticateToken toy_jwt [expired_session] 100 (Some ''forged'')
        = Rejected (reply 403 (Auth_error ''Invalid token''))
   \<and> verify_token toy_jwt [expired_session] 100 (Some ''forged'')
        = reply 401 (Invalid_token ''Invalid token'')
   \<and> toy_jwt ''signed'' = Some ''alice''
   \<and> authenticateToken toy_jwt [] 100 (Some ''signed'')
        = Rejected (reply 401 (Auth_error ''Invalid or expired session''))
   \<and> authenticateToken toy_jwt [expired_session] 100 (Some ''signed'')
        = Rejected (reply 401 (Auth_error ''Invalid or expired session''))
   \<and> verify_token toy_jwt [] 100 (Some ''signed'')
        = reply 401 (Auth_error ''Invalid or expired session'')
   \<and> verify_token toy_jwt [expired_session] 100 (Some ''signed'')
        = reply 401 (Auth_error ''Invalid or expired session'')"
proof -
  have f: "toy_jwt ''forged'' = None" and g: "toy_jwt ''signed'' = Some ''alice''"
    by (simp_all add: toy_jwt_def)
  have ne: "''forged'' \<noteq> []" "''signed'' \<noteq> []" by simp_all
  have e0: "\<forall>s\<in>set []. session_token s = ''signed'' \<longrightarrow> expires_at s \<le> (100::int)" by simp
  have e1: "\<forall>s\<in>set [expired_session]. session_token s = ''signed'' \<longrightarrow> expires_at s \<le> 100"
    by (simp add: expired_session_def)
  from auth_failures[OF ne(1), where jwt_verify = toy_jwt and sessions = "[expired_session]"
         and now = 100] f
  have a: "authenticateToken toy_jwt [expired_session] 100 (Some ''forged'')
             = Rejected (reply 403 (Auth_error ''Invalid token''))
         \<and> verify_token toy_jwt [expired_session] 100 (Some ''forged'')
             = reply 401 (Invalid_token ''Invalid token'')"
    by blast
  from auth_failures[OF ne(2), where jwt_verify = toy_jwt and c = "''alice''"
         and sessions = "[]" and now = 100] g e0
  have b0: "authenticateToken toy_jwt [] 100 (Some ''signed'')
              = Rejected (reply 401 (Auth_error ''Invalid or expired session''))
          \<and> verify_token toy_jwt [] 100 (Some ''signed'')
              = reply 401 (Auth_error ''Invalid or expired session'')"
    by blast
  from auth_failures[OF ne(2), where jwt_verify = toy_jwt and c = "''alice''"
         and sessions = "[expired_session]" and now = 100] g e1
  have b1: "authenticateToken toy_jwt [expired_session] 100 (Some ''signed'')
              = Rejected (reply 401 (Auth_error ''Invalid or expired session''))
          \<and> verify_token toy_jwt [expired_session] 100 (Some ''signed'')
              = reply 401 (Auth_error ''Invalid or expired session'')"
    by blast
  from f g a b0 b1 show ?thesis by blast
qed

text \<open>
  Claim C9 says that the product list is served from the store whenever the cache is absent
  or a cache operation fails. When \<^verbatim>\<open>get\<close> rejects, and when \<^verbatim>\<open>get\<close> finds no entry
  and \<^verbatim>\<open>setEx\<close> rejects, the answer is 500 \<^verbatim>\<open>Failed to fetch products\<close>.
\<close>

theorem fail_open_counterexample:
  "get_rejects cache_down
   \<and> get_all_products cache_down [widget]
        = (cache_down, reply 500 (Product_error ''Failed to fetch products''))
   \<and> \<not> get_rejects cache_read_only \<and> entry cache_read_only = None
   \<and> setEx_rejects cache_read_only
   \<and> get_all_products cache_read_only [widget]
        = (cache_read_only, reply 500 (Product_error ''Failed to fetch products''))"
  by (simp add: cache_down_def cache_read_only_def get_all_products_def redis_get_def
        redis_setEx_def)

text \<open>
  Claim C9, amended. The list handler answers 500 \<^verbatim>\<open>Failed to fetch products\<close> when
  \<^verbatim>\<open>get\<close> rejects, and when there is no entry and \<^verbatim>\<open>setEx\<close> rejects. With no entry
  and a cache that accepts the write, it answers 200 with the store's rows and stores them as
  the entry. With an entry, it answers 200 with the entry.
\<close>

theorem product_list_cache:
  "(get_rejects c \<longrightarrow>
      get_all_products c live = (c, reply 500 (Product_error ''Failed to fetch products'')))
   \<and> (\<not> get_rejects c \<longrightarrow> entry c = None \<longrightarrow> setEx_rejects c \<longrightarrow>
      get_all_products c live = (c, reply 500 (Product_error ''Failed to fetch products'')))
   \<and> (\<not> get_rejects c \<longrightarrow> entry c = None \<longrightarrow> \<not> setEx_rejects c \<longrightarrow>
      get_all_products c live = (c\<lparr>entry := Some live\<rparr>, reply 200 (Product_list live)))
   \<and> (\<not> get_rejects c \<longrightarrow> entry c = Some cached \<longrightarrow>
      get_all_products c live = (c, reply 200 (Product_list cached)))"
  by (simp add: get_all_products_def redis_get_def redis_setEx_def)

text \<open>
  The theorem at the four cases.
\<close>

theorem product_list_cache_witness:
  "get_all_products cache_down [widget]
        = (cache_down, reply 500 (Product_error ''Failed to fetch products''))
   \<and> get_all_products cache_read_only [widget]
        = (cache_read_only, reply 500 (Product_error ''Failed to fetch products''))
   \<and> get_all_products cache_empty [widget]
        = (cache_empty\<lparr>entry := Some [widget]\<rparr>, reply 200 (Product_list [widget]))
   \<and> get_all_products (cache_empty\<lparr>entry := Some [widget]\<rparr>) [widget, gadget]
        = (cache_empty\<lparr>entry := Some [widget]\<rparr>, reply 200 (Product_list [widget]))"
proof -
  have d: "get_rejects cache_down"
    and r: "\<not> get_rejects cache_read_only" "entry cache_read_only = None"
       "setEx_rejects cache_read_only"
    and e: "\<not> get_rejects cache_empty" "entry cache_empty = None" "\<not> setEx_rejects cache_empty"
    and h: "\<not> get_rejects (cache_empty\<lparr>entry := Some [widget]\<rparr>)"
       "entry (cache_empty\<lparr>entry := Some [widget]\<rparr>) = Some [widget]"
    by (simp_all add: cache_down_def cache_read_only_def cache_empty_def)
  note t1 = product_list_cache[of cache_down "[widget]", THEN conjunct1, rule_format, OF d]
  note t2 = product_list_cache[of cache_read_only "[widget]", THEN conjunct2, THEN conjunct1,
      rule_format, OF r]
  note t3 = product_list_cache[of cache_empty "[widget]", THEN conjunct2, THEN conjunct2,
      THEN conjunct1, rule_format, OF e]
  note t4 = product_list_cache[of "cache_empty\<lparr>entry := Some [widget]\<rparr>" "[widget, gadget]"
      "[widget]", THEN conjunct2, THEN conjunct2, THEN conjunct2, rule_format, OF h]
  from t1 t2 t3 t4 show ?thesis by (intro conjI)
qed

section \<open>Order creation: quantities that are not positive\<close>




end
